theory Spec2Isabelle
  imports Main
begin

section \<open>The host and the running process\<close>

text \<open>
  Both scripts are straight-line drivers of external tools. Everything they compute is
  decided by what the host answers to a subprocess call, an import, or a file-existence
  test. The host is therefore a parameter of the model: a record of answer functions over
  an arbitrary world type \<open>'w\<close>, every call returning the answer together with the world
  after the call (an installation changes what later calls see).

  Exceptions are values. The classes are the ones the two scripts name in their
  \<open>except\<close> clauses; \<open>OtherException\<close> stands for any further subclass of
  \<open>Exception\<close>. Each exception carries the text \<open>str(e)\<close>. Asynchronous interrupts
  (\<open>KeyboardInterrupt\<close>), which are not subclasses of \<open>Exception\<close>, are not part of
  the model.
\<close>

datatype exn_class = CalledProcessError | FileNotFoundError | ImportError | OtherException

datatype exn = Exn (cls: exn_class) (str: string)

text \<open>The object \<open>subprocess.run\<close> returns: exit code and the captured streams.\<close>

record completed_process =
  returncode :: int
  stdout :: string
  stderr :: string

record 'w host =
  shell :: "'w \<Rightarrow> string \<Rightarrow> (exn + completed_process) \<times> 'w"
    \<comment> \<open>\<open>subprocess.run(command, shell=True, capture_output=True, text=True)\<close>\<close>
  call :: "'w \<Rightarrow> string list \<Rightarrow> exn option \<times> 'w"
    \<comment> \<open>\<open>subprocess.check_call(argv)\<close>: \<open>None\<close> when the command exits with 0,
        \<open>CalledProcessError\<close> when it exits with another status, any other exception
        (for instance \<open>FileNotFoundError\<close>) when it cannot be started\<close>
  import_module :: "'w \<Rightarrow> string \<Rightarrow> exn option \<times> 'w"
    \<comment> \<open>the statement \<open>import name\<close>\<close>
  load_model :: "'w \<Rightarrow> string \<Rightarrow> exn option \<times> 'w"
    \<comment> \<open>\<open>whisper.load_model(name)\<close>\<close>
  path_exists :: "'w \<Rightarrow> string \<Rightarrow> bool"
    \<comment> \<open>\<open>os.path.exists(path)\<close>\<close>
  platform_system :: string
    \<comment> \<open>\<open>platform.system()\<close>\<close>
  version_info :: "nat \<times> nat"
    \<comment> \<open>major and minor component of \<open>sys.version_info\<close>\<close>
  version :: string
    \<comment> \<open>\<open>sys.version\<close>\<close>
  executable :: string
    \<comment> \<open>\<open>sys.executable\<close>\<close>

text \<open>
  What is observable of a run: the subprocess invocations issued, in order, and the lines
  printed on standard output, in order.
\<close>

datatype invocation = Shell string | Exec "string list"

record 'w proc =
  world :: 'w
  issued :: "invocation list"
  printed :: "string list"

text \<open>
  A statement either returns a value, raises an exception, or leaves through
  \<open>sys.exit\<close> (\<open>SystemExit\<close> is not a subclass of \<open>Exception\<close>, so no handler of the
  scripts catches it).
\<close>

datatype 'a result = Return 'a | Raise exn | SysExit int

type_synonym ('w, 'a) action = "'w proc \<Rightarrow> 'a result \<times> 'w proc"

definition ret :: "'a \<Rightarrow> ('w, 'a) action" where
  "ret x s = (Return x, s)"

definition and_then :: "('w, 'a) action \<Rightarrow> ('a \<Rightarrow> ('w, 'b) action) \<Rightarrow> ('w, 'b) action" where
  "and_then m f s =
     (case m s of
        (Return x, s') \<Rightarrow> f x s'
      | (Raise e, s') \<Rightarrow> (Raise e, s')
      | (SysExit n, s') \<Rightarrow> (SysExit n, s'))"

definition next_do :: "('w, 'a) action \<Rightarrow> ('w, 'b) action \<Rightarrow> ('w, 'b) action" where
  "next_do m k = and_then m (\<lambda>_. k)"

text \<open>\<open>try: body except <classes>: handler\<close>; an exception the clause does not name goes on.\<close>

definition try_except ::
  "('w, 'a) action \<Rightarrow> (exn \<Rightarrow> bool) \<Rightarrow> (exn \<Rightarrow> ('w, 'a) action) \<Rightarrow> ('w, 'a) action" where
  "try_except body handles handler s =
     (case body s of
        (Raise e, s') \<Rightarrow> if handles e then handler e s' else (Raise e, s')
      | (Return x, s') \<Rightarrow> (Return x, s')
      | (SysExit n, s') \<Rightarrow> (SysExit n, s'))"

definition print :: "string \<Rightarrow> ('w, unit) action" where
  "print line s = (Return (), s\<lparr>printed := printed s @ [line]\<rparr>)"

fun print_lines :: "string list \<Rightarrow> ('w, unit) action" where
  "print_lines [] = ret ()"
| "print_lines (l # ls) = next_do (print l) (print_lines ls)"

definition sys_exit :: "int \<Rightarrow> ('w, 'a) action" where
  "sys_exit n s = (SysExit n, s)"

text \<open>
  The status the interpreter ends the process with: 0 when the script runs to its end,
  the argument of \<open>sys.exit\<close>, and 1 (after a traceback) for an exception nobody caught.
\<close>

fun process_status :: "'a result \<Rightarrow> int" where
  "process_status (Return _) = 0"
| "process_status (SysExit n) = n"
| "process_status (Raise _) = 1"

definition subprocess_run :: "'w host \<Rightarrow> string \<Rightarrow> ('w, completed_process) action" where
  "subprocess_run h command s =
     (case shell h (world s) command of
        (answer, w') \<Rightarrow>
          (case answer of Inr cp \<Rightarrow> Return cp | Inl e \<Rightarrow> Raise e,
           s\<lparr>world := w', issued := issued s @ [Shell command]\<rparr>))"

definition check_call :: "'w host \<Rightarrow> string list \<Rightarrow> ('w, unit) action" where
  "check_call h argv s =
     (case call h (world s) argv of
        (answer, w') \<Rightarrow>
          (case answer of None \<Rightarrow> Return () | Some e \<Rightarrow> Raise e,
           s\<lparr>world := w', issued := issued s @ [Exec argv]\<rparr>))"

definition import_stmt :: "'w host \<Rightarrow> string \<Rightarrow> ('w, unit) action" where
  "import_stmt h name s =
     (case import_module h (world s) name of
        (answer, w') \<Rightarrow>
          (case answer of None \<Rightarrow> Return () | Some e \<Rightarrow> Raise e, s\<lparr>world := w'\<rparr>))"

definition whisper_load_model :: "'w host \<Rightarrow> string \<Rightarrow> ('w, unit) action" where
  "whisper_load_model h name s =
     (case load_model h (world s) name of
        (answer, w') \<Rightarrow>
          (case answer of None \<Rightarrow> Return () | Some e \<Rightarrow> Raise e, s\<lparr>world := w'\<rparr>))"

text \<open>Which exceptions an \<open>except\<close> clause catches.\<close>

definition is_Exception :: "exn \<Rightarrow> bool" where
  "is_Exception e = True"

definition is_CalledProcessError :: "exn \<Rightarrow> bool" where
  "is_CalledProcessError e = (cls e = CalledProcessError)"

definition is_ImportError :: "exn \<Rightarrow> bool" where
  "is_ImportError e = (cls e = ImportError)"

definition is_CalledProcessError_or_FileNotFoundError :: "exn \<Rightarrow> bool" where
  "is_CalledProcessError_or_FileNotFoundError e =
     (cls e = CalledProcessError \<or> cls e = FileNotFoundError)"

text \<open>\<open>str.strip()\<close> and \<open>str.lower()\<close> on ASCII text.\<close>

definition is_space :: "char \<Rightarrow> bool" where
  "is_space c = (c \<in> set [CHR 0x09, CHR 0x0A, CHR 0x0B, CHR 0x0C, CHR 0x0D,
                           CHR 0x1C, CHR 0x1D, CHR 0x1E, CHR 0x1F, CHR 0x20])"

definition strip :: "string \<Rightarrow> string" where
  "strip t = rev (dropWhile is_space (rev (dropWhile is_space t)))"

definition lower_char :: "char \<Rightarrow> char" where
  "lower_char c =
     (case map_of (zip ''ABCDEFGHIJKLMNOPQRSTUVWXYZ'' ''abcdefghijklmnopqrstuvwxyz'') c of
        Some d \<Rightarrow> d
      | None \<Rightarrow> c)"

definition lower :: "string \<Rightarrow> string" where
  "lower t = map lower_char t"


section \<open>install-faster-whisper.py\<close>

text \<open>
  The pictographs and bullets that open the script's messages lie outside the 8-bit
  characters of HOL strings; the modelled lines carry the text after them.
\<close>

definition run_command :: "'w host \<Rightarrow> string \<Rightarrow> ('w, bool \<times> string \<times> string) action" where
  "run_command h command =
     try_except
       (and_then (subprocess_run h command)
          (\<lambda>result. ret (returncode result = 0, stdout result, stderr result)))
       is_Exception
       (\<lambda>e. ret (False, [], str e))"

definition verify_command :: string where
  "verify_command =
     ''python -c '' @ [CHR 0x22] @
     ''import faster_whisper; print('' @ [CHR 0x27] @ ''faster-whisper version:'' @ [CHR 0x27] @
     '', faster_whisper.__version__)'' @ [CHR 0x22]"

definition main_faster_whisper :: "'w host \<Rightarrow> ('w, bool) action" where
  "main_faster_whisper h =
     next_do (print ''Installing faster-whisper for improved transcription performance...'')
    (next_do (print [])
    (next_do (print ''Checking Python environment...'')
    (and_then (run_command h ''python --version'') (\<lambda>(success, out, err).
       if success then
         next_do (print (''Python version: '' @ strip out))
        (and_then (run_command h ''pip --version'') (\<lambda>(success, out, err).
           if success then
             next_do (print (''Pip version: '' @ strip out))
            (next_do (print [])
            (next_do (print ''Installing faster-whisper...'')
            (and_then (run_command h ''pip install faster-whisper'') (\<lambda>(success, out, err).
               if success then
                 next_do (print ''faster-whisper installed successfully!'')
                (next_do (print [])
                (next_do (print ''Verifying installation...'')
                (and_then (run_command h verify_command) (\<lambda>(success, out, err).
                   if success then
                     next_do (print_lines
                       [''Verification successful: '' @ strip out,
                        [],
                        ''Performance Benefits:'',
                        ''3-5x faster transcription speed'',
                        ''Lower memory usage'',
                        ''Better GPU utilization (if available)'',
                        ''Optimized for production use'',
                        [],
                        ''Installation complete! Restart your development server to use faster-whisper.''])
                       (ret True)
                   else
                     next_do (print (''Verification failed: '' @ err))
                       (ret False)))))
               else
                 next_do (print (''Installation failed: '' @ err))
                (next_do (print [])
                (next_do (print ''Trying alternative installation...'')
                (and_then (run_command h ''pip install --upgrade faster-whisper'')
                  (\<lambda>(success, out, err).
                   if success then
                     next_do (print ''Alternative installation successful!'')
                       (ret True)
                   else
                     next_do (print_lines
                       [''Alternative installation also failed: '' @ err,
                        [],
                        ''Manual installation steps:'',
                        ''1. Open command prompt as administrator'',
                        ''2. Run: pip install faster-whisper'',
                        ''3. If that fails, try: pip install --user faster-whisper'',
                        ''4. Restart your development server''])
                       (ret False)))))))))
           else
             next_do (print ''Pip not found'')
               (ret False)))
       else
         next_do (print ''Python not found in PATH'')
           (ret False)))))"

text \<open>The \<open>__main__\<close> block: \<open>success = main(); sys.exit(0 if success else 1)\<close>.\<close>

definition script_faster_whisper :: "'w host \<Rightarrow> ('w, unit) action" where
  "script_faster_whisper h =
     and_then (main_faster_whisper h) (\<lambda>success. sys_exit (if success then 0 else 1))"


section \<open>install-whisper-deps.py\<close>

text \<open>
  \<open>sys.version_info < (3, 8)\<close>: tuples compare lexicographically, and the five-component
  \<open>version_info\<close> is not less than a pair that equals its first two components.
\<close>

definition version_less :: "nat \<times> nat \<Rightarrow> nat \<times> nat \<Rightarrow> bool" where
  "version_less v bound =
     (fst v < fst bound \<or> (fst v = fst bound \<and> snd v < snd bound))"

definition check_python_version :: "'w host \<Rightarrow> ('w, unit) action" where
  "check_python_version h =
     next_do
       (if version_less (version_info h) (3, 8) then
          next_do (print ''Error: Python 3.8 or higher is required'') (sys_exit 1)
        else ret ())
       (print (''Python version: '' @ version h))"

definition install_package :: "'w host \<Rightarrow> string \<Rightarrow> ('w, bool) action" where
  "install_package h package =
     try_except
       (next_do (check_call h [executable h, ''-m'', ''pip'', ''install'', package])
          (ret True))
       is_CalledProcessError
       (\<lambda>e. next_do (print (''Failed to install '' @ package)) (ret False))"

definition os_path_exists :: "'w host \<Rightarrow> string \<Rightarrow> ('w, bool) action" where
  "os_path_exists h path s = (Return (path_exists h (world s) path), s)"

definition install_ffmpeg :: "'w host \<Rightarrow> ('w, bool) action" where
  "install_ffmpeg h =
     (let system = lower (platform_system h) in
      if system = ''windows'' then
        next_do (print_lines
          [''Please install ffmpeg manually:'',
           ''Option 1: Using Chocolatey: choco install ffmpeg'',
           ''Option 2: Using Scoop: scoop install ffmpeg'',
           ''Option 3: Download from https://ffmpeg.org/download.html''])
          (ret False)
      else if system = ''darwin'' then
        try_except
          (next_do (check_call h [''which'', ''brew''])
          (next_do (check_call h [''brew'', ''install'', ''ffmpeg''])
            (ret True)))
          is_CalledProcessError
          (\<lambda>e. next_do
             (print ''Please install Homebrew (https://brew.sh/) and then run: brew install ffmpeg'')
             (ret False))
      else if system = ''linux'' then
        and_then (os_path_exists h ''/etc/debian_version'') (\<lambda>debian.
          if debian then
            try_except
              (next_do (check_call h [''sudo'', ''apt'', ''update''])
              (next_do (check_call h [''sudo'', ''apt'', ''install'', ''-y'', ''ffmpeg''])
                (ret True)))
              is_CalledProcessError
              (\<lambda>e. next_do
                 (print ''Failed to install ffmpeg. Please install it manually: sudo apt install ffmpeg'')
                 (ret False))
          else
            and_then (os_path_exists h ''/etc/arch-release'') (\<lambda>arch.
              if arch then
                try_except
                  (next_do (check_call h [''sudo'', ''pacman'', ''-S'', ''--noconfirm'', ''ffmpeg''])
                    (ret True))
                  is_CalledProcessError
                  (\<lambda>e. next_do
                     (print ''Failed to install ffmpeg. Please install it manually: sudo pacman -S ffmpeg'')
                     (ret False))
              else
                next_do (print ''Please install ffmpeg manually for your Linux distribution'')
                  (ret False)))
      else
        next_do (print (''Unsupported platform: '' @ system))
       (next_do (print ''Please install ffmpeg manually'')
          (ret False)))"

text \<open>The probe discards the output of ffmpeg; only its outcome is used.\<close>

definition check_ffmpeg :: "'w host \<Rightarrow> ('w, bool) action" where
  "check_ffmpeg h =
     try_except
       (next_do (check_call h [''ffmpeg'', ''-version''])
       (next_do (print ''ffmpeg is already installed'')
         (ret True)))
       is_CalledProcessError_or_FileNotFoundError
       (\<lambda>e. next_do (print ''ffmpeg is not installed'') (ret False))"

definition dependencies :: "string list" where
  "dependencies =
     [''torch'',
      ''numpy'',
      ''tqdm'',
      ''more-itertools'',
      ''transformers>=4.19.0'',
      ''ffmpeg-python'',
      ''setuptools-rust'',
      ''openai-whisper'']"

fun for_each :: "'a list \<Rightarrow> ('a \<Rightarrow> ('w, unit) action) \<Rightarrow> ('w, unit) action" where
  "for_each [] body = ret ()"
| "for_each (x # xs) body = next_do (body x) (for_each xs body)"

definition install_whisper_dependencies :: "'w host \<Rightarrow> ('w, unit) action" where
  "install_whisper_dependencies h =
     next_do
       (for_each dependencies (\<lambda>package.
          next_do (print (''Installing '' @ package @ ''...''))
         (and_then (install_package h package) (\<lambda>installed.
            if \<not> installed then print (''Warning: Failed to install '' @ package)
            else ret ()))))
       (try_except
          (next_do (import_stmt h ''tiktoken'')
            (print ''tiktoken is already installed''))
          is_ImportError
          (\<lambda>e. next_do (print ''Installing tiktoken...'')
            (and_then (install_package h ''tiktoken'') (\<lambda>installed.
               if \<not> installed then print ''Warning: Failed to install tiktoken''
               else ret ()))))"

text \<open>
  A \<open>try\<close> with two \<open>except\<close> clauses: the first clause that names the class of the
  exception handles it.
\<close>

definition try_except2 ::
  "('w, 'a) action \<Rightarrow> (exn \<Rightarrow> bool) \<Rightarrow> (exn \<Rightarrow> ('w, 'a) action) \<Rightarrow>
     (exn \<Rightarrow> bool) \<Rightarrow> (exn \<Rightarrow> ('w, 'a) action) \<Rightarrow> ('w, 'a) action" where
  "try_except2 body handles1 handler1 handles2 handler2 s =
     (case body s of
        (Raise e, s') \<Rightarrow>
          if handles1 e then handler1 e s'
          else if handles2 e then handler2 e s'
          else (Raise e, s')
      | (Return x, s') \<Rightarrow> (Return x, s')
      | (SysExit n, s') \<Rightarrow> (SysExit n, s'))"

definition test_whisper_installation :: "'w host \<Rightarrow> ('w, bool) action" where
  "test_whisper_installation h =
     try_except2
       (next_do (import_stmt h ''whisper'')
       (next_do (print ''Whisper is installed correctly'')
       (next_do (print ''Testing model loading (this might take a while the first time)...'')
       (next_do (whisper_load_model h ''base.en'')
       (next_do (print ''Model loaded successfully'')
         (ret True))))))
       is_ImportError
       (\<lambda>e. next_do (print ''Error: Failed to import whisper'') (ret False))
       is_Exception
       (\<lambda>e. next_do (print (''Error testing Whisper: '' @ str e)) (ret False))"

text \<open>
  The two flags \<open>parse_args\<close> returns. The model covers the runs in which the argument
  parser of the standard library has returned them.
\<close>

record options =
  skip_ffmpeg :: bool
  test :: bool

definition main_whisper_deps :: "'w host \<Rightarrow> options \<Rightarrow> ('w, unit) action" where
  "main_whisper_deps h args =
     next_do (print ''Checking Python version...'')
    (next_do (check_python_version h)
    (next_do
       (if \<not> skip_ffmpeg args then
          next_do (print ''Checking ffmpeg...'')
         (and_then (check_ffmpeg h) (\<lambda>present.
            if \<not> present then
              next_do (print ''Installing ffmpeg...'')
             (and_then (install_ffmpeg h) (\<lambda>_. ret ()))
            else ret ()))
        else ret ())
    (next_do (print ''Installing Whisper dependencies...'')
    (next_do (install_whisper_dependencies h)
    (next_do
       (if test args then
          next_do (print ''Testing Whisper installation...'')
         (and_then (test_whisper_installation h) (\<lambda>_. ret ()))
        else ret ())
      (print ''Done!''))))))"

text \<open>The \<open>__main__\<close> block calls \<open>main()\<close> and the script ends.\<close>

definition script_whisper_deps :: "'w host \<Rightarrow> options \<Rightarrow> ('w, unit) action" where
  "script_whisper_deps h args = main_whisper_deps h args"


section \<open>The platform table of the specification\<close>

text \<open>
  The specification describes the ffmpeg installer as a classifier into six categories
  followed by a fixed action per category. These definitions follow the
  specification's words; \<open>install_ffmpeg\<close> above follows the source.
\<close>

datatype category = Windows | MacOS | LinuxDebian | LinuxArch | LinuxOther | Unsupported

definition classify :: "string \<Rightarrow> bool \<Rightarrow> bool \<Rightarrow> category" where
  "classify system debian_marker arch_marker =
     (if system = ''windows'' then Windows
      else if system = ''darwin'' then MacOS
      else if system = ''linux'' then
        (if debian_marker then LinuxDebian
         else if arch_marker then LinuxArch
         else LinuxOther)
      else Unsupported)"

text \<open>
  An automated category runs its commands in order and gives up, with its message, at the
  first one that exits with a non-zero status; a manual category prints its guidance.
\<close>

datatype plan = Automated "string list list" string | Manual "string list"

fun category_plan :: "category \<Rightarrow> plan" where
  "category_plan Windows = Manual
     [''Please install ffmpeg manually:'',
      ''Option 1: Using Chocolatey: choco install ffmpeg'',
      ''Option 2: Using Scoop: scoop install ffmpeg'',
      ''Option 3: Download from https://ffmpeg.org/download.html'']"
| "category_plan MacOS = Automated
     [[''which'', ''brew''], [''brew'', ''install'', ''ffmpeg'']]
     ''Please install Homebrew (https://brew.sh/) and then run: brew install ffmpeg''"
| "category_plan LinuxDebian = Automated
     [[''sudo'', ''apt'', ''update''], [''sudo'', ''apt'', ''install'', ''-y'', ''ffmpeg'']]
     ''Failed to install ffmpeg. Please install it manually: sudo apt install ffmpeg''"
| "category_plan LinuxArch = Automated
     [[''sudo'', ''pacman'', ''-S'', ''--noconfirm'', ''ffmpeg'']]
     ''Failed to install ffmpeg. Please install it manually: sudo pacman -S ffmpeg''"
| "category_plan LinuxOther = Manual
     [''Please install ffmpeg manually for your Linux distribution'']"
| "category_plan Unsupported = Manual
     [''Please install ffmpeg manually'']"

fun attempt :: "'w host \<Rightarrow> string list list \<Rightarrow> string \<Rightarrow> ('w, bool) action" where
  "attempt h [] message s = (Return True, s)"
| "attempt h (argv # rest) message s =
     (case call h (world s) argv of
        (None, w') \<Rightarrow>
          attempt h rest message (s\<lparr>world := w', issued := issued s @ [Exec argv]\<rparr>)
      | (Some e, w') \<Rightarrow>
          (if cls e = CalledProcessError then Return False else Raise e,
           s\<lparr>world := w', issued := issued s @ [Exec argv],
             printed := (if cls e = CalledProcessError then printed s @ [message]
                         else printed s)\<rparr>))"

fun perform :: "'w host \<Rightarrow> plan \<Rightarrow> ('w, bool) action" where
  "perform h (Automated commands message) s = attempt h commands message s"
| "perform h (Manual guidance) s = (Return False, s\<lparr>printed := printed s @ guidance\<rparr>)"

text \<open>The commands of the ffmpeg installer, and the pip command of a package.\<close>

definition ffmpeg_install_commands :: "string list list" where
  "ffmpeg_install_commands =
     [[''which'', ''brew''],
      [''brew'', ''install'', ''ffmpeg''],
      [''sudo'', ''apt'', ''update''],
      [''sudo'', ''apt'', ''install'', ''-y'', ''ffmpeg''],
      [''sudo'', ''pacman'', ''-S'', ''--noconfirm'', ''ffmpeg'']]"

definition pip_install :: "'w host \<Rightarrow> string \<Rightarrow> invocation" where
  "pip_install h package = Exec [executable h, ''-m'', ''pip'', ''install'', package]"

definition is_pip_install :: "'w host \<Rightarrow> invocation \<Rightarrow> bool" where
  "is_pip_install h i =
     (case i of
        Exec argv \<Rightarrow>
          length argv = 5 \<and> take 4 argv = [executable h, ''-m'', ''pip'', ''install'']
      | Shell command \<Rightarrow> False)"

text \<open>A process starts with nothing issued and nothing printed.\<close>

definition start :: "'w \<Rightarrow> 'w proc" where
  "start w = \<lparr>world = w, issued = [], printed = []\<rparr>"


text \<open>
  What a probe of the faster-whisper script finds in a world: whether the shell command
  ends with exit code 0, and the world it leaves.
\<close>

definition command_succeeds :: "'w host \<Rightarrow> 'w \<Rightarrow> string \<Rightarrow> bool" where
  "command_succeeds h w command =
     (case fst (shell h w command) of Inr cp \<Rightarrow> returncode cp = 0 | Inl e \<Rightarrow> False)"

definition world_after :: "'w host \<Rightarrow> 'w \<Rightarrow> string list \<Rightarrow> 'w" where
  "world_after h w commands = foldl (\<lambda>w' c. snd (shell h w' c)) w commands"



section \<open>Concrete hosts\<close>

text \<open>
  A host given by tables, over worlds that count the calls made so far: the exit code of
  each shell command (127 for a command not listed), the exception of each argv and of
  each import (none when not listed), and the files that exist.
\<close>

definition table_host ::
  "string \<Rightarrow> nat \<times> nat \<Rightarrow> (string \<times> int) list \<Rightarrow> (string list \<times> exn) list \<Rightarrow>
     (string \<times> exn) list \<Rightarrow> string list \<Rightarrow> nat host" where
  "table_host system python shell_codes call_errors import_errors files =
     \<lparr>shell = (\<lambda>w c.
        (Inr \<lparr>returncode = (case map_of shell_codes c of Some rc \<Rightarrow> rc | None \<Rightarrow> 127),
              stdout = [], stderr = ''diagnostics''\<rparr>, Suc w)),
      call = (\<lambda>w argv. (map_of call_errors argv, Suc w)),
      import_module = (\<lambda>w name. (map_of import_errors name, Suc w)),
      load_model = (\<lambda>w name. (None, Suc w)),
      path_exists = (\<lambda>w path. path \<in> set files),
      platform_system = system,
      version_info = python,
      version = ''3'',
      executable = ''python3''\<rparr>"

text \<open>Python and pip answer; the plain installation fails, the upgrade variant works.\<close>

definition host_fallback :: "nat host" where
  "host_fallback = table_host ''Windows'' (3, 11)
     [(''python --version'', 0), (''pip --version'', 0),
      (''pip install faster-whisper'', 1), (''pip install --upgrade faster-whisper'', 0)]
     [] [] []"


text \<open>Everything installs, but the installed library does not import.\<close>

definition host_broken_import :: "nat host" where
  "host_broken_import = table_host ''Linux'' (3, 11)
     [(''python --version'', 0), (''pip --version'', 0), (''pip install faster-whisper'', 0),
      (verify_command, 1)]
     []
     [(''whisper'', Exn ImportError ''No module named whisper'')]
     []"

text \<open>A Debian machine without ffmpeg whose package index cannot be updated.\<close>

definition host_debian_offline :: "nat host" where
  "host_debian_offline = table_host ''Linux'' (3, 11) []
     [([''ffmpeg'', ''-version''], Exn FileNotFoundError ''ffmpeg''),
      ([''sudo'', ''apt'', ''update''], Exn CalledProcessError ''exit status 100'')]
     [] [''/etc/debian_version'']"

text \<open>A Debian machine with neither ffmpeg nor sudo (a minimal container run as root).\<close>

definition host_debian_no_sudo :: "nat host" where
  "host_debian_no_sudo = table_host ''Linux'' (3, 11) []
     [([''ffmpeg'', ''-version''], Exn FileNotFoundError ''ffmpeg''),
      ([''sudo'', ''apt'', ''update''], Exn FileNotFoundError ''sudo''),
      ([''sudo'', ''apt'', ''install'', ''-y'', ''ffmpeg''], Exn FileNotFoundError ''sudo'')]
     [] [''/etc/debian_version'']"

text \<open>A Debian machine without ffmpeg on which every command works.\<close>

definition host_debian_bare :: "nat host" where
  "host_debian_bare = table_host ''Linux'' (3, 11) []
     [([''ffmpeg'', ''-version''], Exn FileNotFoundError ''ffmpeg'')]
     [] [''/etc/debian_version'']"

text \<open>A Debian machine with ffmpeg installed on which two packages do not build.\<close>

definition host_debian_ready :: "nat host" where
  "host_debian_ready = table_host ''Linux'' (3, 11) []
     [([''python3'', ''-m'', ''pip'', ''install'', ''torch''], Exn CalledProcessError ''exit status 1''),
      ([''python3'', ''-m'', ''pip'', ''install'', ''openai-whisper''],
         Exn CalledProcessError ''exit status 1'')]
     [(''tiktoken'', Exn ImportError ''No module named tiktoken'')]
     [''/etc/debian_version'']"

definition flags :: "bool \<Rightarrow> bool \<Rightarrow> options" where
  "flags skip run_test = \<lparr>skip_ffmpeg = skip, test = run_test\<rparr>"


section \<open>Sequencing, handlers and the library calls\<close>

lemmas act_defs = ret_def and_then_def next_do_def try_except_def try_except2_def print_def
  sys_exit_def subprocess_run_def check_call_def import_stmt_def whisper_load_model_def
  os_path_exists_def is_Exception_def is_CalledProcessError_def is_ImportError_def
  is_CalledProcessError_or_FileNotFoundError_def

lemmas host_defs = table_host_def command_succeeds_def world_after_def version_less_def

lemma print_lines_eq: "print_lines ls s = (Return (), s\<lparr>printed := printed s @ ls\<rparr>)"
  by (induction ls arbitrary: s) (simp_all add: ret_def next_do_def and_then_def print_def)

lemma and_then_no_exit:
  "(\<And>s. fst (m s) \<noteq> SysExit n) \<Longrightarrow> (\<And>x s. fst (f x s) \<noteq> SysExit n)
     \<Longrightarrow> fst (and_then m f s) \<noteq> SysExit n"
proof -
  assume m: "\<And>s. fst (m s) \<noteq> SysExit n" and f: "\<And>x s. fst (f x s) \<noteq> SysExit n"
  obtain r s1 where ms: "m s = (r, s1)" by (cases "m s")
  show ?thesis using m[of s] f ms by (cases r) (simp_all add: and_then_def)
qed

lemma next_do_no_exit:
  "(\<And>s. fst (m s) \<noteq> SysExit n) \<Longrightarrow> (\<And>s. fst (k s) \<noteq> SysExit n)
     \<Longrightarrow> fst (next_do m k s) \<noteq> SysExit n"
  unfolding next_do_def by (rule and_then_no_exit)

lemma if_no_exit:
  "(\<And>s. fst (a s) \<noteq> SysExit n) \<Longrightarrow> (\<And>s. fst (b s) \<noteq> SysExit n)
     \<Longrightarrow> fst ((if c then a else b) s) \<noteq> SysExit n"
  by simp

lemma print_no_exit: "fst (print l s) \<noteq> SysExit n"
  by (simp add: print_def)

lemma ret_no_exit: "fst (ret x s) \<noteq> SysExit n"
  by (simp add: ret_def)


section \<open>Properties of install-faster-whisper.py\<close>

lemma run_command_eq:
  "run_command h c s =
     (Return (case fst (shell h (world s) c) of
                Inr cp \<Rightarrow> (returncode cp = 0, stdout cp, stderr cp)
              | Inl e \<Rightarrow> (False, [], str e)),
      s\<lparr>world := snd (shell h (world s) c), issued := issued s @ [Shell c]\<rparr>)"
  by (simp add: run_command_def act_defs split: prod.splits sum.splits)

lemma run_command_flag:
  "run_command h c s =
     (Return (command_succeeds h (world s) c,
              case fst (shell h (world s) c) of Inr cp \<Rightarrow> stdout cp | Inl e \<Rightarrow> [],
              case fst (shell h (world s) c) of Inr cp \<Rightarrow> stderr cp | Inl e \<Rightarrow> str e),
      s\<lparr>world := world_after h (world s) [c], issued := issued s @ [Shell c]\<rparr>)"
  by (simp add: run_command_eq command_succeeds_def world_after_def split: sum.splits)

lemma world_after_snoc: "world_after h (world_after h w cs) [c] = world_after h w (cs @ [c])"
  by (simp add: world_after_def)

lemmas fw_defs = script_faster_whisper_def main_faster_whisper_def run_command_flag
  ret_def and_then_def next_do_def print_def sys_exit_def start_def


section \<open>Properties of install-whisper-deps.py\<close>

subsection \<open>The components\<close>

lemma check_python_version_ok:
  "\<not> version_less (version_info h) (3, 8) \<Longrightarrow>
     check_python_version h s =
       (Return (), s\<lparr>printed := printed s @ [''Python version: '' @ version h]\<rparr>)"
  by (simp add: check_python_version_def act_defs)

lemma check_python_version_no_exit:
  "\<not> version_less (version_info h) (3, 8) \<Longrightarrow> fst (check_python_version h s) \<noteq> SysExit n"
  by (simp add: check_python_version_ok)

lemma install_package_eq:
  "install_package h p s =
     (case call h (world s) [executable h, ''-m'', ''pip'', ''install'', p] of
        (None, w') \<Rightarrow> (Return True, s\<lparr>world := w', issued := issued s @ [pip_install h p]\<rparr>)
      | (Some e, w') \<Rightarrow>
          if cls e = CalledProcessError
          then (Return False, s\<lparr>world := w', issued := issued s @ [pip_install h p],
                                 printed := printed s @ [''Failed to install '' @ p]\<rparr>)
          else (Raise e, s\<lparr>world := w', issued := issued s @ [pip_install h p]\<rparr>))"
  by (simp add: install_package_def pip_install_def act_defs split: prod.splits option.splits)

text \<open>One round of the dependency loop issues exactly the pip command of its package.\<close>

lemma package_step_issued:
  "issued (snd (next_do (print l) (and_then (install_package h p)
       (\<lambda>installed. if \<not> installed then print m else ret ())) s)) = issued s @ [pip_install h p]"
  by (simp add: install_package_eq act_defs split: prod.splits option.splits)

lemma package_step_no_exit:
  "fst (next_do (print l) (and_then (install_package h p)
       (\<lambda>installed. if \<not> installed then print m else ret ())) s) \<noteq> SysExit n"
  by (simp add: install_package_eq act_defs split: prod.splits option.splits)


text \<open>The loop: what it has issued is the image of a prefix of its list.\<close>

lemma for_each_issued:
  assumes "\<And>x s. issued (snd (body x s)) = issued s @ [g x]"
  shows "\<exists>ys. issued (snd (for_each xs body s)) = issued s @ map g ys"
proof (induction xs arbitrary: s)
  case Nil
  show ?case by (simp add: ret_def)
next
  case (Cons x xs)
  obtain r s1 where b: "body x s = (r, s1)" by (cases "body x s")
  have i1: "issued s1 = issued s @ [g x]" using assms[of x s] b by simp
  show ?case
  proof (cases r)
    case (Return u)
    from Cons.IH[of s1] obtain ys
      where "issued (snd (for_each xs body s1)) = issued s1 @ map g ys" ..
    then have "issued (snd (for_each (x # xs) body s)) = issued s @ map g (x # ys)"
      using b Return i1 by (simp add: next_do_def and_then_def)
    then show ?thesis ..
  next
    case (Raise e)
    then have "issued (snd (for_each (x # xs) body s)) = issued s @ map g [x]"
      using b i1 by (simp add: next_do_def and_then_def)
    then show ?thesis ..
  next
    case (SysExit n)
    then have "issued (snd (for_each (x # xs) body s)) = issued s @ map g [x]"
      using b i1 by (simp add: next_do_def and_then_def)
    then show ?thesis ..
  qed
qed

lemma for_each_no_exit:
  assumes "\<And>x s. fst (body x s) \<noteq> SysExit n"
  shows "fst (for_each xs body s) \<noteq> SysExit n"
proof (induction xs arbitrary: s)
  case Nil
  show ?case by (simp add: ret_def)
next
  case (Cons x xs)
  obtain r s1 where b: "body x s = (r, s1)" by (cases "body x s")
  show ?case using assms[of x s] Cons.IH[of s1] b
    by (cases r) (simp_all add: next_do_def and_then_def)
qed


lemma dependencies_issued:
  "\<exists>ps. issued (snd (install_whisper_dependencies h s)) = issued s @ map (pip_install h) ps"
proof -
  let ?body = "\<lambda>package. next_do (print (''Installing '' @ package @ ''...''))
         (and_then (install_package h package) (\<lambda>installed.
            if \<not> installed then print (''Warning: Failed to install '' @ package)
            else ret ()))"
  obtain r s1 where l: "for_each dependencies ?body s = (r, s1)"
    by (cases "for_each dependencies ?body s")
  have "\<exists>ys. issued (snd (for_each dependencies ?body s)) = issued s @ map (pip_install h) ys"
    by (rule for_each_issued) (rule package_step_issued)
  then obtain ys where ys: "issued s1 = issued s @ map (pip_install h) ys" using l by auto
  show ?thesis
  proof (cases r)
    case (Return u)
    have "issued (snd (install_whisper_dependencies h s)) = issued s @ map (pip_install h) ys
       \<or> issued (snd (install_whisper_dependencies h s))
           = issued s @ map (pip_install h) (ys @ [''tiktoken''])"
      using l Return ys
      by (auto simp add: install_whisper_dependencies_def install_package_eq act_defs
            split: prod.splits option.splits)
    then show ?thesis by blast
  next
    case (Raise e)
    then have "issued (snd (install_whisper_dependencies h s)) = issued s @ map (pip_install h) ys"
      using l ys by (simp add: install_whisper_dependencies_def next_do_def and_then_def)
    then show ?thesis ..
  next
    case (SysExit n)
    then have "issued (snd (install_whisper_dependencies h s)) = issued s @ map (pip_install h) ys"
      using l ys by (simp add: install_whisper_dependencies_def next_do_def and_then_def)
    then show ?thesis ..
  qed
qed

lemma dependencies_no_exit: "fst (install_whisper_dependencies h s) \<noteq> SysExit n"
proof -
  let ?body = "\<lambda>package. next_do (print (''Installing '' @ package @ ''...''))
         (and_then (install_package h package) (\<lambda>installed.
            if \<not> installed then print (''Warning: Failed to install '' @ package)
            else ret ()))"
  have "fst (for_each dependencies ?body s) \<noteq> SysExit n"
    by (rule for_each_no_exit) (rule package_step_no_exit)
  then show ?thesis
    by (cases "for_each dependencies ?body s"; cases "fst (for_each dependencies ?body s)")
       (auto simp add: install_whisper_dependencies_def install_package_eq act_defs
            split: prod.splits option.splits)
qed


lemma check_ffmpeg_eq:
  "check_ffmpeg h s =
     (case call h (world s) [''ffmpeg'', ''-version''] of
        (None, w') \<Rightarrow>
          (Return True, s\<lparr>world := w', issued := issued s @ [Exec [''ffmpeg'', ''-version'']],
                           printed := printed s @ [''ffmpeg is already installed'']\<rparr>)
      | (Some e, w') \<Rightarrow>
          if cls e = CalledProcessError \<or> cls e = FileNotFoundError
          then (Return False, s\<lparr>world := w', issued := issued s @ [Exec [''ffmpeg'', ''-version'']],
                                 printed := printed s @ [''ffmpeg is not installed'']\<rparr>)
          else (Raise e, s\<lparr>world := w', issued := issued s @ [Exec [''ffmpeg'', ''-version'']]\<rparr>))"
  by (simp add: check_ffmpeg_def act_defs split: prod.splits option.splits)

lemma check_ffmpeg_no_exit: "fst (check_ffmpeg h s) \<noteq> SysExit n"
  by (simp add: check_ffmpeg_eq split: prod.splits option.splits)

lemma install_ffmpeg_eq:
  "install_ffmpeg h s =
     (let system = lower (platform_system h);
          c = classify system (path_exists h (world s) ''/etc/debian_version'')
                (path_exists h (world s) ''/etc/arch-release'')
      in perform h (category_plan c)
           (if c = Unsupported
            then s\<lparr>printed := printed s @ [''Unsupported platform: '' @ system]\<rparr>
            else s))"
  by (simp add: install_ffmpeg_def classify_def Let_def print_lines_eq act_defs
        split: prod.splits option.splits)

lemma attempt_no_exit: "fst (attempt h cs m s) \<noteq> SysExit n"
  by (induction cs arbitrary: s) (auto split: prod.splits option.splits)

lemma install_ffmpeg_no_exit: "fst (install_ffmpeg h s) \<noteq> SysExit n"
  by (cases "category_plan (classify (lower (platform_system h))
        (path_exists h (world s) ''/etc/debian_version'')
        (path_exists h (world s) ''/etc/arch-release''))")
     (simp_all add: install_ffmpeg_eq Let_def attempt_no_exit)

lemma test_whisper_total:
  "fst (test_whisper_installation h s) = Return True
   \<or> fst (test_whisper_installation h s) = Return False"
  by (simp add: test_whisper_installation_def act_defs split: prod.splits option.splits)

lemma test_whisper_no_exit: "fst (test_whisper_installation h s) \<noteq> SysExit n"
  using test_whisper_total[of h s] by auto

lemma test_whisper_issued: "issued (snd (test_whisper_installation h s)) = issued s"
  by (simp add: test_whisper_installation_def act_defs split: prod.splits option.splits)

lemma is_pip_install_pip [simp]: "is_pip_install h (pip_install h p)"
  by (simp add: is_pip_install_def pip_install_def)

lemma filter_pip_installs [simp]:
  "filter (\<lambda>i. \<not> is_pip_install h i) (map (pip_install h) ps) = []"
  by (induction ps) simp_all

subsection \<open>The orchestrator\<close>

lemma main_no_exit:
  "\<not> version_less (version_info h) (3, 8) \<Longrightarrow> fst (main_whisper_deps h args s) \<noteq> SysExit n"
  unfolding main_whisper_deps_def
  by (intro next_do_no_exit and_then_no_exit if_no_exit print_no_exit ret_no_exit
        check_ffmpeg_no_exit test_whisper_no_exit check_python_version_no_exit
        install_ffmpeg_no_exit dependencies_no_exit)

lemma eval_debian_ready:
  "fst (script_whisper_deps host_debian_ready (flags False True) (start 0)) = Return ()"
  by (simp add: script_whisper_deps_def main_whisper_deps_def check_python_version_def
      version_less_def check_ffmpeg_def install_whisper_dependencies_def dependencies_def
      install_package_def test_whisper_installation_def act_defs host_debian_ready_def
      table_host_def flags_def start_def)


lemma tail_issued:
  "\<exists>ps. issued (snd (next_do (print l1) (next_do (install_whisper_dependencies h)
       (next_do (if t then next_do (print l2)
                   (and_then (test_whisper_installation h) (\<lambda>_. ret ())) else ret ())
          (print l3))) s)) = issued s @ map (pip_install h) ps"
proof -
  let ?s1 = "s\<lparr>printed := printed s @ [l1]\<rparr>"
  obtain r s2 where d: "install_whisper_dependencies h ?s1 = (r, s2)"
    by (cases "install_whisper_dependencies h ?s1")
  from dependencies_issued[of h ?s1] obtain ps
    where ps: "issued s2 = issued s @ map (pip_install h) ps" using d by auto
  have "issued (snd (next_do (print l1) (next_do (install_whisper_dependencies h)
       (next_do (if t then next_do (print l2)
                   (and_then (test_whisper_installation h) (\<lambda>_. ret ())) else ret ())
          (print l3))) s)) = issued s @ map (pip_install h) ps"
  proof (cases r)
    case (Return u)
    obtain r3 s3 where t3: "test_whisper_installation h (s2\<lparr>printed := printed s2 @ [l2]\<rparr>) = (r3, s3)"
      by (cases "test_whisper_installation h (s2\<lparr>printed := printed s2 @ [l2]\<rparr>)")
    have i3: "issued s3 = issued s2"
      using test_whisper_issued[of h "s2\<lparr>printed := printed s2 @ [l2]\<rparr>"] t3 by simp
    show ?thesis using d Return ps t3 i3
      by (cases r3) (simp_all add: next_do_def and_then_def print_def ret_def)
  next
    case (Raise e)
    then show ?thesis using d ps by (simp add: next_do_def and_then_def print_def)
  next
    case (SysExit n)
    then show ?thesis using d ps by (simp add: next_do_def and_then_def print_def)
  qed
  then show ?thesis ..
qed

lemma main_skip_eq:
  "\<not> version_less (version_info h) (3, 8) \<Longrightarrow> skip_ffmpeg args \<Longrightarrow>
   main_whisper_deps h args s =
     next_do (print ''Installing Whisper dependencies...'')
       (next_do (install_whisper_dependencies h)
       (next_do (if test args then next_do (print ''Testing Whisper installation...'')
                   (and_then (test_whisper_installation h) (\<lambda>_. ret ())) else ret ())
          (print ''Done!'')))
       (s\<lparr>printed := printed s @ [''Checking Python version...'', ''Python version: '' @ version h]\<rparr>)"
  by (simp add: main_whisper_deps_def check_python_version_ok next_do_def and_then_def print_def ret_def)

lemma main_present_eq:
  "\<not> version_less (version_info h) (3, 8) \<Longrightarrow> \<not> skip_ffmpeg args \<Longrightarrow>
   fst (call h (world s) [''ffmpeg'', ''-version'']) = None \<Longrightarrow>
   main_whisper_deps h args s =
     next_do (print ''Installing Whisper dependencies...'')
       (next_do (install_whisper_dependencies h)
       (next_do (if test args then next_do (print ''Testing Whisper installation...'')
                   (and_then (test_whisper_installation h) (\<lambda>_. ret ())) else ret ())
          (print ''Done!'')))
       (s\<lparr>world := snd (call h (world s) [''ffmpeg'', ''-version'']),
          issued := issued s @ [Exec [''ffmpeg'', ''-version'']],
          printed := printed s @ [''Checking Python version...'', ''Python version: '' @ version h,
             ''Checking ffmpeg...'', ''ffmpeg is already installed'']\<rparr>)"
  by (cases "call h (world s) [''ffmpeg'', ''-version'']")
     (simp add: main_whisper_deps_def check_python_version_ok check_ffmpeg_eq
        next_do_def and_then_def print_def ret_def)

lemma main_version_fail:
  "version_less (version_info h) (3, 8) \<Longrightarrow> issued (snd (main_whisper_deps h args s)) = issued s"
  by (simp add: main_whisper_deps_def check_python_version_def next_do_def and_then_def
        print_def sys_exit_def)

lemma main_present_shape:
  assumes "fst (call h w [''ffmpeg'', ''-version'']) = None"
  shows "\<exists>ps. issued (snd (main_whisper_deps h args (start w))) = map (pip_install h) ps
            \<or> issued (snd (main_whisper_deps h args (start w)))
                 = Exec [''ffmpeg'', ''-version''] # map (pip_install h) ps"
proof (cases "version_less (version_info h) (3, 8)")
  case True
  then have "issued (snd (main_whisper_deps h args (start w))) = map (pip_install h) []"
    by (simp add: main_version_fail start_def)
  then show ?thesis by blast
next
  case v: False
  show ?thesis
  proof (cases "skip_ffmpeg args")
    case True
    have "\<exists>ps. issued (snd (main_whisper_deps h args (start w)))
            = issued ((start w)\<lparr>printed := printed (start w) @
                [''Checking Python version...'', ''Python version: '' @ version h]\<rparr>)
              @ map (pip_install h) ps"
      unfolding main_skip_eq[OF v True] by (rule tail_issued)
    then show ?thesis by (auto simp: start_def)
  next
    case False
    have c: "fst (call h (world (start w)) [''ffmpeg'', ''-version'']) = None"
      using assms by (simp add: start_def)
    have "\<exists>ps. issued (snd (main_whisper_deps h args (start w)))
            = issued ((start w)\<lparr>world := snd (call h (world (start w)) [''ffmpeg'', ''-version'']),
                issued := issued (start w) @ [Exec [''ffmpeg'', ''-version'']],
                printed := printed (start w) @ [''Checking Python version...'',
                  ''Python version: '' @ version h,
                  ''Checking ffmpeg...'', ''ffmpeg is already installed'']\<rparr>)
              @ map (pip_install h) ps"
      unfolding main_present_eq[OF v False c] by (rule tail_issued)
    then show ?thesis by (auto simp: start_def)
  qed
qed

lemma not_pip_probe: "\<not> is_pip_install h (Exec [''ffmpeg'', ''-version''])"
  by (simp add: is_pip_install_def)

lemma ffmpeg_commands_not_pip:
  "c \<in> set ffmpeg_install_commands \<Longrightarrow> \<not> is_pip_install h (Exec c) \<and> c \<noteq> [''ffmpeg'', ''-version'']"
  by (auto simp: ffmpeg_install_commands_def is_pip_install_def)

lemma lower_Linux: "lower ''Linux'' = ''linux''"
  by (simp add: lower_def lower_char_def)

lemma install_ffmpeg_debian:
  assumes "lower (platform_system h) = ''linux''"
    and "path_exists h (world s) ''/etc/debian_version''"
  shows "issued (snd (install_ffmpeg h s)) =
           issued s @ Exec [''sudo'', ''apt'', ''update''] #
             (if fst (call h (world s) [''sudo'', ''apt'', ''update'']) = None
              then [Exec [''sudo'', ''apt'', ''install'', ''-y'', ''ffmpeg'']] else [])"
  using assms
  by (simp add: install_ffmpeg_eq classify_def Let_def split: prod.splits option.splits)

lemma main_absent_eq:
  assumes "\<not> version_less (version_info h) (3, 8)" and "\<not> skip_ffmpeg args"
    and "call h (world s) [''ffmpeg'', ''-version''] = (Some e, w1)"
    and "cls e = CalledProcessError \<or> cls e = FileNotFoundError"
  shows "main_whisper_deps h args s =
     and_then (install_ffmpeg h) (\<lambda>_.
       next_do (print ''Installing Whisper dependencies...'')
         (next_do (install_whisper_dependencies h)
         (next_do (if test args then next_do (print ''Testing Whisper installation...'')
                     (and_then (test_whisper_installation h) (\<lambda>_. ret ())) else ret ())
            (print ''Done!''))))
       (s\<lparr>world := w1,
          issued := issued s @ [Exec [''ffmpeg'', ''-version'']],
          printed := printed s @ [''Checking Python version...'', ''Python version: '' @ version h,
             ''Checking ffmpeg...'', ''ffmpeg is not installed'', ''Installing ffmpeg...'']\<rparr>)"
  using assms
  by (simp add: main_whisper_deps_def check_python_version_ok check_ffmpeg_eq
        next_do_def and_then_def print_def ret_def split: prod.splits result.splits)

lemma test_whisper_import_fails:
  assumes "\<forall>w'. fst (import_module h w' ''whisper'') \<noteq> None"
  shows "\<exists>l. test_whisper_installation h s =
           (Return False, s\<lparr>world := snd (import_module h (world s) ''whisper''),
                             printed := printed s @ [l]\<rparr>)
         \<and> (l = ''Error: Failed to import whisper'' \<or> (\<exists>m. l = ''Error testing Whisper: '' @ m))"
proof -
  obtain e w1 where i: "import_module h (world s) ''whisper'' = (Some e, w1)"
    using assms[rule_format, of "world s"] by (cases "import_module h (world s) ''whisper''") auto
  show ?thesis
  proof (cases "cls e = ImportError")
    case True
    then have "test_whisper_installation h s =
           (Return False, s\<lparr>world := snd (import_module h (world s) ''whisper''),
                             printed := printed s @ [''Error: Failed to import whisper'']\<rparr>)"
      using i by (simp add: test_whisper_installation_def act_defs)
    then show ?thesis by blast
  next
    case False
    then have "test_whisper_installation h s =
           (Return False, s\<lparr>world := snd (import_module h (world s) ''whisper''),
                             printed := printed s @ [''Error testing Whisper: '' @ str e]\<rparr>)"
      using i by (simp add: test_whisper_installation_def act_defs)
    then show ?thesis by blast
  qed
qed

lemma next_do_ReturnD:
  assumes "fst (next_do m k s) = Return y"
  shows "\<exists>s1. next_do m k s = k s1"
proof -
  obtain r s1 where ms: "m s = (r, s1)" by (cases "m s")
  show ?thesis using assms ms by (cases r) (auto simp: next_do_def and_then_def)
qed

lemma main_ends_with_verification:
  assumes "fst (main_whisper_deps h args s) = Return ()" and "test args"
  shows "\<exists>s5. main_whisper_deps h args s =
           next_do (next_do (print ''Testing Whisper installation...'')
                      (and_then (test_whisper_installation h) (\<lambda>_. ret ())))
             (print ''Done!'') s5"
proof -
  let ?k6 = "next_do (if test args then next_do (print ''Testing Whisper installation...'')
                     (and_then (test_whisper_installation h) (\<lambda>_. ret ())) else ret ())
            (print ''Done!'')"
  let ?k5 = "next_do (install_whisper_dependencies h) ?k6"
  let ?k4 = "next_do (print ''Installing Whisper dependencies...'') ?k5"
  let ?ff = "if \<not> skip_ffmpeg args then
          next_do (print ''Checking ffmpeg...'')
         (and_then (check_ffmpeg h) (\<lambda>present.
            if \<not> present then
              next_do (print ''Installing ffmpeg...'')
             (and_then (install_ffmpeg h) (\<lambda>_. ret ()))
            else ret ()))
        else ret ()"
  let ?k3 = "next_do ?ff ?k4"
  let ?k2 = "next_do (check_python_version h) ?k3"
  have m: "main_whisper_deps h args s = next_do (print ''Checking Python version...'') ?k2 s"
    by (simp add: main_whisper_deps_def)
  from next_do_ReturnD[of "print ''Checking Python version...''" ?k2 s "()"] assms(1) m
  obtain s1 where e1: "main_whisper_deps h args s = ?k2 s1" by auto
  from next_do_ReturnD[of "check_python_version h" ?k3 s1 "()"] assms(1) e1
  obtain s2 where e2: "main_whisper_deps h args s = ?k3 s2" by auto
  from next_do_ReturnD[of ?ff ?k4 s2 "()"] assms(1) e2
  obtain s3 where e3: "main_whisper_deps h args s = ?k4 s3" by auto
  from next_do_ReturnD[of "print ''Installing Whisper dependencies...''" ?k5 s3 "()"] assms(1) e3
  obtain s4 where e4: "main_whisper_deps h args s = ?k5 s4" by auto
  from next_do_ReturnD[of "install_whisper_dependencies h" ?k6 s4 "()"] assms(1) e4
  obtain s5 where e5: "main_whisper_deps h args s = ?k6 s5" by auto
  show ?thesis using e5 assms(2) by auto
qed

lemma eval_broken_import:
  "fst (script_whisper_deps host_broken_import (flags True True) (start 0)) = Return ()"
  by (simp add: script_whisper_deps_def main_whisper_deps_def check_python_version_def
      version_less_def install_whisper_dependencies_def dependencies_def
      install_package_def test_whisper_installation_def act_defs host_broken_import_def
      table_host_def flags_def start_def)


section \<open>The claims\<close>

text \<open>
  Claim C1. \<open>install_ffmpeg\<close> is the platform table of the specification: the lowercased
  system name and the presence of the two marker files select one of the six categories,
  and the category fixes the commands that are run, the guidance printed and the result.
  For an unsupported platform the source moreover echoes the system name in a first line.
\<close>

theorem install_ffmpeg_by_category:
  "install_ffmpeg h s =
     (let system = lower (platform_system h);
          c = classify system (path_exists h (world s) ''/etc/debian_version'')
                (path_exists h (world s) ''/etc/arch-release'')
      in perform h (category_plan c)
           (if c = Unsupported
            then s\<lparr>printed := printed s @ [''Unsupported platform: '' @ system]\<rparr>
            else s))"
  by (rule install_ffmpeg_eq)

theorem install_ffmpeg_by_category_witness:
  "classify (lower (platform_system host_debian_offline))
      (path_exists host_debian_offline 0 ''/etc/debian_version'')
      (path_exists host_debian_offline 0 ''/etc/arch-release'') = LinuxDebian
   \<and> fst (install_ffmpeg host_debian_offline (start 0)) = Return False
   \<and> issued (snd (install_ffmpeg host_debian_offline (start 0))) = [Exec [''sudo'', ''apt'', ''update'']]"
  using install_ffmpeg_by_category [of host_debian_offline "start 0"]
  by (simp add: host_debian_offline_def table_host_def start_def lower_Linux classify_def Let_def)



text \<open>
  Claim C3. When \<open>ffmpeg -version\<close> exits with 0, \<open>check_ffmpeg\<close> returns \<open>True\<close> and
  reports that ffmpeg is already installed, and the run issues none of the commands of the
  ffmpeg installer: apart from the pip installations of the dependency phase, the probe is
  the only command issued.
\<close>

theorem present_binary_skips_install:
  assumes "fst (call h w [''ffmpeg'', ''-version'']) = None"
  shows "fst (check_ffmpeg h (start w)) = Return True
     \<and> printed (snd (check_ffmpeg h (start w))) = [''ffmpeg is already installed'']
     \<and> issued (snd (check_ffmpeg h (start w))) = [Exec [''ffmpeg'', ''-version'']]
     \<and> (\<forall>c \<in> set ffmpeg_install_commands.
           Exec c \<notin> set (issued (snd (script_whisper_deps h args (start w)))))
     \<and> (\<not> skip_ffmpeg args \<and> \<not> version_less (version_info h) (3, 8) \<longrightarrow>
          filter (\<lambda>i. \<not> is_pip_install h i) (issued (snd (script_whisper_deps h args (start w))))
            = [Exec [''ffmpeg'', ''-version'']])"
proof (intro conjI ballI impI)
  obtain w' where c: "call h w [''ffmpeg'', ''-version''] = (None, w')"
    using assms by (cases "call h w [''ffmpeg'', ''-version'']") simp
  show "fst (check_ffmpeg h (start w)) = Return True"
    using c by (simp add: check_ffmpeg_eq start_def)
  show "printed (snd (check_ffmpeg h (start w))) = [''ffmpeg is already installed'']"
    using c by (simp add: check_ffmpeg_eq start_def)
  show "issued (snd (check_ffmpeg h (start w))) = [Exec [''ffmpeg'', ''-version'']]"
    using c by (simp add: check_ffmpeg_eq start_def)
next
  fix c assume c: "c \<in> set ffmpeg_install_commands"
  from main_present_shape[OF assms, of args] obtain ps
    where "issued (snd (main_whisper_deps h args (start w))) = map (pip_install h) ps
            \<or> issued (snd (main_whisper_deps h args (start w)))
                 = Exec [''ffmpeg'', ''-version''] # map (pip_install h) ps" ..
  then show "Exec c \<notin> set (issued (snd (script_whisper_deps h args (start w))))"
    using ffmpeg_commands_not_pip[OF c, of h]
    by (auto simp: script_whisper_deps_def)
next
  assume a: "\<not> skip_ffmpeg args \<and> \<not> version_less (version_info h) (3, 8)"
  have c: "fst (call h (world (start w)) [''ffmpeg'', ''-version'']) = None"
    using assms by (simp add: start_def)
  from a have v: "\<not> version_less (version_info h) (3, 8)" and k: "\<not> skip_ffmpeg args" by simp_all
  have "\<exists>ps. issued (snd (main_whisper_deps h args (start w)))
            = issued ((start w)\<lparr>world := snd (call h (world (start w)) [''ffmpeg'', ''-version'']),
                issued := issued (start w) @ [Exec [''ffmpeg'', ''-version'']],
                printed := printed (start w) @ [''Checking Python version...'',
                  ''Python version: '' @ version h,
                  ''Checking ffmpeg...'', ''ffmpeg is already installed'']\<rparr>)
              @ map (pip_install h) ps"
    unfolding main_present_eq[OF v k c] by (rule tail_issued)
  then show "filter (\<lambda>i. \<not> is_pip_install h i) (issued (snd (script_whisper_deps h args (start w))))
            = [Exec [''ffmpeg'', ''-version'']]"
    by (auto simp: script_whisper_deps_def start_def not_pip_probe)
qed

theorem present_binary_skips_install_witness:
  "fst (call host_debian_ready 0 [''ffmpeg'', ''-version'']) = None
   \<and> fst (check_ffmpeg host_debian_ready (start 0)) = Return True
   \<and> filter (\<lambda>i. \<not> is_pip_install host_debian_ready i)
        (issued (snd (script_whisper_deps host_debian_ready (flags False True) (start 0))))
        = [Exec [''ffmpeg'', ''-version'']]"
proof -
  have c: "fst (call host_debian_ready 0 [''ffmpeg'', ''-version'']) = None"
    by (simp add: host_debian_ready_def host_defs)
  have f: "\<not> skip_ffmpeg (flags False True) \<and> \<not> version_less (version_info host_debian_ready) (3, 8)"
    by (simp add: host_debian_ready_def host_defs flags_def)
  show ?thesis
    using c f present_binary_skips_install [OF c, of "flags False True"] by blast
qed

text \<open>
  Claim C4. When both queries succeed, the plain installation fails and the upgrade
  variant succeeds, \<open>main\<close> returns \<open>True\<close>, the process ends with status 0, and the
  commands issued are exactly the two queries, the installation and one fallback. In
  every run the fallback command is issued at most once.
\<close>

theorem fallback_success:
  "(command_succeeds h w ''python --version''
    \<and> command_succeeds h (world_after h w [''python --version'']) ''pip --version''
    \<and> \<not> command_succeeds h (world_after h w [''python --version'', ''pip --version''])
          ''pip install faster-whisper''
    \<and> command_succeeds h
          (world_after h w [''python --version'', ''pip --version'', ''pip install faster-whisper''])
          ''pip install --upgrade faster-whisper''
    \<longrightarrow> fst (main_faster_whisper h (start w)) = Return True
      \<and> process_status (fst (script_faster_whisper h (start w))) = 0
      \<and> issued (snd (script_faster_whisper h (start w))) =
          [Shell ''python --version'', Shell ''pip --version'',
           Shell ''pip install faster-whisper'', Shell ''pip install --upgrade faster-whisper''])
   \<and> count_list (issued (snd (script_faster_whisper h (start w))))
        (Shell ''pip install --upgrade faster-whisper'') \<le> 1"
proof (intro conjI impI)
  assume a: "command_succeeds h w ''python --version''
    \<and> command_succeeds h (world_after h w [''python --version'']) ''pip --version''
    \<and> \<not> command_succeeds h (world_after h w [''python --version'', ''pip --version''])
          ''pip install faster-whisper''
    \<and> command_succeeds h
          (world_after h w [''python --version'', ''pip --version'', ''pip install faster-whisper''])
          ''pip install --upgrade faster-whisper''"
  show "fst (main_faster_whisper h (start w)) = Return True"
    using a by (simp add: fw_defs world_after_snoc)
  show "process_status (fst (script_faster_whisper h (start w))) = 0"
    using a by (simp add: fw_defs world_after_snoc)
  show "issued (snd (script_faster_whisper h (start w))) =
          [Shell ''python --version'', Shell ''pip --version'',
           Shell ''pip install faster-whisper'', Shell ''pip install --upgrade faster-whisper'']"
    using a by (simp add: fw_defs world_after_snoc)
next
  show "count_list (issued (snd (script_faster_whisper h (start w))))
        (Shell ''pip install --upgrade faster-whisper'') \<le> 1"
    by (simp add: fw_defs world_after_snoc verify_command_def)
qed

theorem fallback_success_witness:
  "command_succeeds host_fallback 0 ''python --version''
    \<and> command_succeeds host_fallback (world_after host_fallback 0 [''python --version''])
         ''pip --version''
    \<and> \<not> command_succeeds host_fallback
          (world_after host_fallback 0 [''python --version'', ''pip --version''])
          ''pip install faster-whisper''
    \<and> command_succeeds host_fallback
          (world_after host_fallback 0
             [''python --version'', ''pip --version'', ''pip install faster-whisper''])
          ''pip install --upgrade faster-whisper''
    \<and> process_status (fst (script_faster_whisper host_fallback (start 0))) = 0"
proof -
  have a: "command_succeeds host_fallback 0 ''python --version''
    \<and> command_succeeds host_fallback (world_after host_fallback 0 [''python --version''])
         ''pip --version''
    \<and> \<not> command_succeeds host_fallback
          (world_after host_fallback 0 [''python --version'', ''pip --version''])
          ''pip install faster-whisper''
    \<and> command_succeeds host_fallback
          (world_after host_fallback 0
             [''python --version'', ''pip --version'', ''pip install faster-whisper''])
          ''pip install --upgrade faster-whisper''"
    by (simp add: host_fallback_def host_defs)
  show ?thesis
    using a fallback_success [of host_fallback 0] by blast
qed

text \<open>
  Claim C5, amended. In install-whisper-deps.py the verification never raises; a failed
  verification is printed, \<open>main\<close> goes on to its last line and the process ends with
  status 0. In install-faster-whisper.py a failed verification after a successful
  installation is printed, \<open>main\<close> returns \<open>False\<close> and the process ends with status 1.
\<close>

theorem verification_failure_policy:
  "(fst (test_whisper_installation h s) = Return True
      \<or> fst (test_whisper_installation h s) = Return False)
   \<and> (\<not> version_less (version_info h) (3, 8) \<and> test args
       \<and> (\<forall>e. fst (script_whisper_deps h args (start w)) \<noteq> Raise e)
       \<and> (\<forall>w'. fst (import_module h w' ''whisper'') \<noteq> None)
      \<longrightarrow> process_status (fst (script_whisper_deps h args (start w))) = 0
        \<and> (\<exists>pre l. printed (snd (script_whisper_deps h args (start w))) = pre @ [l, ''Done!'']
              \<and> (l = ''Error: Failed to import whisper''
                  \<or> (\<exists>m. l = ''Error testing Whisper: '' @ m))))
   \<and> (command_succeeds h w ''python --version''
       \<and> command_succeeds h (world_after h w [''python --version'']) ''pip --version''
       \<and> command_succeeds h (world_after h w [''python --version'', ''pip --version''])
            ''pip install faster-whisper''
       \<and> \<not> command_succeeds h
            (world_after h w [''python --version'', ''pip --version'', ''pip install faster-whisper''])
            verify_command
      \<longrightarrow> fst (main_faster_whisper h (start w)) = Return False
        \<and> process_status (fst (script_faster_whisper h (start w))) = 1
        \<and> (\<exists>m. last (printed (snd (script_faster_whisper h (start w))))
                  = ''Verification failed: '' @ m))"
proof (intro conjI impI)
  show "fst (test_whisper_installation h s) = Return True
      \<or> fst (test_whisper_installation h s) = Return False"
    by (rule test_whisper_total)
next
  assume a: "\<not> version_less (version_info h) (3, 8) \<and> test args
       \<and> (\<forall>e. fst (script_whisper_deps h args (start w)) \<noteq> Raise e)
       \<and> (\<forall>w'. fst (import_module h w' ''whisper'') \<noteq> None)"
  have ne: "\<forall>n. fst (main_whisper_deps h args (start w)) \<noteq> SysExit n"
    using a by (simp add: main_no_exit)
  have r: "fst (main_whisper_deps h args (start w)) = Return ()"
    using a ne by (cases "fst (main_whisper_deps h args (start w))")
      (simp_all add: script_whisper_deps_def)
  show "process_status (fst (script_whisper_deps h args (start w))) = 0"
    using r by (simp add: script_whisper_deps_def)
  from main_ends_with_verification[OF r] a obtain s5
    where e: "main_whisper_deps h args (start w) =
           next_do (next_do (print ''Testing Whisper installation...'')
                      (and_then (test_whisper_installation h) (\<lambda>_. ret ())))
             (print ''Done!'') s5" by blast
  let ?s6 = "s5\<lparr>printed := printed s5 @ [''Testing Whisper installation...'']\<rparr>"
  from test_whisper_import_fails[of h ?s6] a obtain l
    where t: "test_whisper_installation h ?s6 =
           (Return False, ?s6\<lparr>world := snd (import_module h (world ?s6) ''whisper''),
                             printed := printed ?s6 @ [l]\<rparr>)"
      and l: "l = ''Error: Failed to import whisper'' \<or> (\<exists>m. l = ''Error testing Whisper: '' @ m)"
    by blast
  have "printed (snd (main_whisper_deps h args (start w)))
          = (printed s5 @ [''Testing Whisper installation...'']) @ [l, ''Done!'']"
    unfolding e using t by (simp add: next_do_def and_then_def print_def ret_def)
  then show "\<exists>pre l. printed (snd (script_whisper_deps h args (start w))) = pre @ [l, ''Done!'']
              \<and> (l = ''Error: Failed to import whisper''
                  \<or> (\<exists>m. l = ''Error testing Whisper: '' @ m))"
    using l unfolding script_whisper_deps_def by blast
next
  assume a: "command_succeeds h w ''python --version''
       \<and> command_succeeds h (world_after h w [''python --version'']) ''pip --version''
       \<and> command_succeeds h (world_after h w [''python --version'', ''pip --version''])
            ''pip install faster-whisper''
       \<and> \<not> command_succeeds h
            (world_after h w [''python --version'', ''pip --version'', ''pip install faster-whisper''])
            verify_command"
  show "fst (main_faster_whisper h (start w)) = Return False"
    using a by (simp add: fw_defs world_after_snoc)
  show "process_status (fst (script_faster_whisper h (start w))) = 1"
    using a by (simp add: fw_defs world_after_snoc)
  show "\<exists>m. last (printed (snd (script_faster_whisper h (start w))))
                  = ''Verification failed: '' @ m"
    using a by (simp add: fw_defs world_after_snoc)
qed

theorem verification_failure_policy_witness:
  "\<not> version_less (version_info host_broken_import) (3, 8) \<and> test (flags True True)
   \<and> (\<forall>e. fst (script_whisper_deps host_broken_import (flags True True) (start 0)) \<noteq> Raise e)
   \<and> (\<forall>w'. fst (import_module host_broken_import w' ''whisper'') \<noteq> None)
   \<and> command_succeeds host_broken_import 0 ''python --version''
   \<and> command_succeeds host_broken_import
        (world_after host_broken_import 0 [''python --version'']) ''pip --version''
   \<and> command_succeeds host_broken_import
        (world_after host_broken_import 0 [''python --version'', ''pip --version''])
        ''pip install faster-whisper''
   \<and> \<not> command_succeeds host_broken_import
        (world_after host_broken_import 0
           [''python --version'', ''pip --version'', ''pip install faster-whisper''])
        verify_command
   \<and> process_status (fst (script_whisper_deps host_broken_import (flags True True) (start 0))) = 0
   \<and> process_status (fst (script_faster_whisper host_broken_import (start 0))) = 1"
proof -
  have a: "\<not> version_less (version_info host_broken_import) (3, 8) \<and> test (flags True True)
       \<and> (\<forall>e. fst (script_whisper_deps host_broken_import (flags True True) (start 0)) \<noteq> Raise e)
       \<and> (\<forall>w'. fst (import_module host_broken_import w' ''whisper'') \<noteq> None)"
    by (simp add: eval_broken_import) (simp add: host_broken_import_def host_defs flags_def)
  have b: "command_succeeds host_broken_import 0 ''python --version''
   \<and> command_succeeds host_broken_import
        (world_after host_broken_import 0 [''python --version'']) ''pip --version''
   \<and> command_succeeds host_broken_import
        (world_after host_broken_import 0 [''python --version'', ''pip --version''])
        ''pip install faster-whisper''
   \<and> \<not> command_succeeds host_broken_import
        (world_after host_broken_import 0
           [''python --version'', ''pip --version'', ''pip install faster-whisper''])
        verify_command"
    by (simp add: host_broken_import_def host_defs verify_command_def)
  show ?thesis
    using a b verification_failure_policy
      [of host_broken_import "start 0" "flags True True" 0]
    by blast
qed

text \<open>
  Claim C5 as stated fails for install-faster-whisper.py: on a host where Python, pip and
  the installation succeed and the import check fails, the exit status is 1.
\<close>

theorem faster_whisper_verification_counterexample:
  "command_succeeds host_broken_import 0 ''python --version''
   \<and> command_succeeds host_broken_import
        (world_after host_broken_import 0 [''python --version'']) ''pip --version''
   \<and> command_succeeds host_broken_import
        (world_after host_broken_import 0 [''python --version'', ''pip --version''])
        ''pip install faster-whisper''
   \<and> \<not> command_succeeds host_broken_import
        (world_after host_broken_import 0
           [''python --version'', ''pip --version'', ''pip install faster-whisper''])
        verify_command
   \<and> process_status (fst (script_faster_whisper host_broken_import (start 0))) = 1"
  by (simp add: fw_defs world_after_snoc host_broken_import_def host_defs verify_command_def)

text \<open>
  Claim C6, amended. On Linux with the Debian marker present, the ffmpeg installer issues
  \<open>sudo apt update\<close> first and exactly once, and issues \<open>sudo apt install -y ffmpeg\<close>
  after it, exactly once, if and only if the update returned normally. When the probe has
  found ffmpeg absent, these are, with the probe itself, the only commands of the whole
  run besides the pip installations of the dependency phase.
\<close>

theorem debian_two_step:
  assumes linux: "lower (platform_system h) = ''linux''"
  shows "(path_exists h (world s) ''/etc/debian_version'' \<longrightarrow>
            issued (snd (install_ffmpeg h s)) =
              issued s @ Exec [''sudo'', ''apt'', ''update''] #
                (if fst (call h (world s) [''sudo'', ''apt'', ''update'']) = None
                 then [Exec [''sudo'', ''apt'', ''install'', ''-y'', ''ffmpeg'']] else []))
     \<and> (\<not> skip_ffmpeg args \<and> \<not> version_less (version_info h) (3, 8)
        \<and> fst (call h w [''ffmpeg'', ''-version'']) = Some e
        \<and> (cls e = CalledProcessError \<or> cls e = FileNotFoundError)
        \<and> path_exists h (snd (call h w [''ffmpeg'', ''-version''])) ''/etc/debian_version'' \<longrightarrow>
            filter (\<lambda>i. \<not> is_pip_install h i) (issued (snd (script_whisper_deps h args (start w)))) =
              Exec [''ffmpeg'', ''-version''] # Exec [''sudo'', ''apt'', ''update''] #
                (if fst (call h (snd (call h w [''ffmpeg'', ''-version''])) [''sudo'', ''apt'', ''update''])
                      = None
                 then [Exec [''sudo'', ''apt'', ''install'', ''-y'', ''ffmpeg'']] else []))"
proof (intro conjI impI)
  assume "path_exists h (world s) ''/etc/debian_version''"
  then show "issued (snd (install_ffmpeg h s)) =
              issued s @ Exec [''sudo'', ''apt'', ''update''] #
                (if fst (call h (world s) [''sudo'', ''apt'', ''update'']) = None
                 then [Exec [''sudo'', ''apt'', ''install'', ''-y'', ''ffmpeg'']] else [])"
    using linux by (rule install_ffmpeg_debian[rotated])
next
  let ?probe = "[''ffmpeg'', ''-version'']"
  let ?w1 = "snd (call h w ?probe)"
  let ?steps = "Exec [''sudo'', ''apt'', ''update''] #
                (if fst (call h ?w1 [''sudo'', ''apt'', ''update'']) = None
                 then [Exec [''sudo'', ''apt'', ''install'', ''-y'', ''ffmpeg'']] else [])"
  assume a: "\<not> skip_ffmpeg args \<and> \<not> version_less (version_info h) (3, 8)
        \<and> fst (call h w ?probe) = Some e
        \<and> (cls e = CalledProcessError \<or> cls e = FileNotFoundError)
        \<and> path_exists h ?w1 ''/etc/debian_version''"
  let ?s2 = "(start w)\<lparr>world := ?w1,
          issued := issued (start w) @ [Exec ?probe],
          printed := printed (start w) @ [''Checking Python version...'',
             ''Python version: '' @ version h,
             ''Checking ffmpeg...'', ''ffmpeg is not installed'', ''Installing ffmpeg...'']\<rparr>"
  have c: "call h (world (start w)) ?probe = (Some e, ?w1)"
    using a by (cases "call h w ?probe") (simp add: start_def)
  have m: "main_whisper_deps h args (start w) =
     and_then (install_ffmpeg h) (\<lambda>_.
       next_do (print ''Installing Whisper dependencies...'')
         (next_do (install_whisper_dependencies h)
         (next_do (if test args then next_do (print ''Testing Whisper installation...'')
                     (and_then (test_whisper_installation h) (\<lambda>_. ret ())) else ret ())
            (print ''Done!'')))) ?s2"
    using a by (intro main_absent_eq[OF _ _ c]) simp_all
  obtain r s3 where f: "install_ffmpeg h ?s2 = (r, s3)" by (cases "install_ffmpeg h ?s2")
  have "issued (snd (install_ffmpeg h ?s2)) = issued ?s2 @ ?steps"
    using install_ffmpeg_debian[OF linux, of ?s2] a by simp
  then have i3: "issued s3 = Exec ?probe # ?steps" using f by (simp add: start_def)
  have np: "filter (\<lambda>i. \<not> is_pip_install h i) (Exec ?probe # ?steps) = Exec ?probe # ?steps"
    by (simp add: is_pip_install_def)
  let ?tail = "next_do (print ''Installing Whisper dependencies...'')
         (next_do (install_whisper_dependencies h)
         (next_do (if test args then next_do (print ''Testing Whisper installation...'')
                     (and_then (test_whisper_installation h) (\<lambda>_. ret ())) else ret ())
            (print ''Done!'')))"
  have "\<exists>ps. issued (snd (main_whisper_deps h args (start w))) = issued s3 @ map (pip_install h) ps"
  proof (cases r)
    case (Return b)
    have m2: "main_whisper_deps h args (start w) = ?tail s3"
      unfolding m using f Return by (simp add: and_then_def)
    show ?thesis unfolding m2 by (rule tail_issued)
  next
    case (Raise x)
    have "main_whisper_deps h args (start w) = (Raise x, s3)"
      unfolding m using f Raise by (simp add: and_then_def)
    then have "issued (snd (main_whisper_deps h args (start w))) = issued s3 @ map (pip_install h) []"
      by simp
    then show ?thesis ..
  next
    case (SysExit n)
    have "main_whisper_deps h args (start w) = (SysExit n, s3)"
      unfolding m using f SysExit by (simp add: and_then_def)
    then have "issued (snd (main_whisper_deps h args (start w))) = issued s3 @ map (pip_install h) []"
      by simp
    then show ?thesis ..
  qed
  then obtain ps where "issued (snd (main_whisper_deps h args (start w)))
      = (Exec ?probe # ?steps) @ map (pip_install h) ps"
    using i3 by auto
  then show "filter (\<lambda>i. \<not> is_pip_install h i) (issued (snd (script_whisper_deps h args (start w))))
      = Exec ?probe # ?steps"
    using np by (simp only: script_whisper_deps_def filter_append filter_pip_installs append_Nil2)
qed

theorem debian_two_step_witness:
  "lower (platform_system host_debian_bare) = ''linux''
   \<and> path_exists host_debian_bare (world (start 1)) ''/etc/debian_version''
   \<and> \<not> skip_ffmpeg (flags False False) \<and> \<not> version_less (version_info host_debian_bare) (3, 8)
   \<and> fst (call host_debian_bare 0 [''ffmpeg'', ''-version'']) = Some (Exn FileNotFoundError ''ffmpeg'')
   \<and> issued (snd (install_ffmpeg host_debian_bare (start 1))) =
        [Exec [''sudo'', ''apt'', ''update''], Exec [''sudo'', ''apt'', ''install'', ''-y'', ''ffmpeg'']]
   \<and> filter (\<lambda>i. \<not> is_pip_install host_debian_bare i)
        (issued (snd (script_whisper_deps host_debian_bare (flags False False) (start 0)))) =
        [Exec [''ffmpeg'', ''-version''], Exec [''sudo'', ''apt'', ''update''],
         Exec [''sudo'', ''apt'', ''install'', ''-y'', ''ffmpeg'']]"
proof -
  have l: "lower (platform_system host_debian_bare) = ''linux''"
    by (simp add: host_debian_bare_def table_host_def lower_Linux)
  have p: "path_exists host_debian_bare (world (start 1)) ''/etc/debian_version''"
    by (simp add: host_debian_bare_def table_host_def start_def)
  have a: "\<not> skip_ffmpeg (flags False False) \<and> \<not> version_less (version_info host_debian_bare) (3, 8)
        \<and> fst (call host_debian_bare 0 [''ffmpeg'', ''-version'']) = Some (Exn FileNotFoundError ''ffmpeg'')
        \<and> (cls (Exn FileNotFoundError ''ffmpeg'') = CalledProcessError
            \<or> cls (Exn FileNotFoundError ''ffmpeg'') = FileNotFoundError)
        \<and> path_exists host_debian_bare (snd (call host_debian_bare 0 [''ffmpeg'', ''-version'']))
             ''/etc/debian_version''"
    by (simp add: host_debian_bare_def host_defs flags_def)
  have u: "fst (call host_debian_bare (world (start 1)) [''sudo'', ''apt'', ''update'']) = None"
    "fst (call host_debian_bare (snd (call host_debian_bare 0 [''ffmpeg'', ''-version'']))
        [''sudo'', ''apt'', ''update'']) = None"
    by (simp_all add: host_debian_bare_def host_defs)
  show ?thesis
    using l p a u debian_two_step [OF l, of "start 1" "flags False False" 0 "Exn FileNotFoundError ''ffmpeg''"]
    by (simp add: start_def)
qed

text \<open>
  Claim C6 as stated fails when the index update exits with a non-zero status: the
  installation command is then never issued.
\<close>

theorem debian_update_failure_counterexample:
  "lower (platform_system host_debian_offline) = ''linux''
   \<and> path_exists host_debian_offline 0 ''/etc/debian_version''
   \<and> fst (check_ffmpeg host_debian_offline (start 0)) = Return False
   \<and> issued (snd (install_ffmpeg host_debian_offline (start 0))) = [Exec [''sudo'', ''apt'', ''update'']]
   \<and> Exec [''sudo'', ''apt'', ''install'', ''-y'', ''ffmpeg'']
        \<notin> set (issued (snd (script_whisper_deps host_debian_offline (flags False False) (start 0))))"
  by (simp add: script_whisper_deps_def main_whisper_deps_def check_python_version_def
      version_less_def check_ffmpeg_def install_ffmpeg_def lower_Linux
      install_whisper_dependencies_def dependencies_def install_package_def
      act_defs host_debian_offline_def table_host_def flags_def start_def)



text \<open>
  Claim C8. On a Debian host with neither ffmpeg nor sudo, \<open>check_ffmpeg\<close> turns the
  \<open>FileNotFoundError\<close> of its probe into \<open>False\<close>, but \<open>install_ffmpeg\<close>, which names only
  \<open>CalledProcessError\<close> in its handlers, lets the \<open>FileNotFoundError\<close> of
  \<open>sudo apt update\<close> escape: it leaves \<open>main\<close> uncaught, no dependency is installed, and
  the process ends with status 1.
\<close>

theorem missing_sudo_escapes:
  "fst (check_ffmpeg host_debian_no_sudo (start 0)) = Return False
   \<and> fst (install_ffmpeg host_debian_no_sudo (snd (check_ffmpeg host_debian_no_sudo (start 0))))
       = Raise (Exn FileNotFoundError ''sudo'')
   \<and> fst (script_whisper_deps host_debian_no_sudo (flags False False) (start 0))
       = Raise (Exn FileNotFoundError ''sudo'')
   \<and> issued (snd (script_whisper_deps host_debian_no_sudo (flags False False) (start 0)))
       = [Exec [''ffmpeg'', ''-version''], Exec [''sudo'', ''apt'', ''update'']]
   \<and> process_status (fst (script_whisper_deps host_debian_no_sudo (flags False False) (start 0))) = 1"
  by (simp add: script_whisper_deps_def main_whisper_deps_def check_python_version_def
      version_less_def check_ffmpeg_def install_ffmpeg_def lower_Linux
      act_defs host_debian_no_sudo_def table_host_def flags_def start_def)

text \<open>
  Claim C9. In install-whisper-deps.py, when the Python version is at least 3.8 and no
  exception escapes, \<open>main\<close> returns and the process ends with status 0, whatever the
  ffmpeg step, the package installations and the verification did.
\<close>

theorem whisper_deps_exit_status_zero:
  assumes "\<not> version_less (version_info h) (3, 8)"
    and "\<forall>e. fst (script_whisper_deps h args (start w)) \<noteq> Raise e"
  shows "fst (script_whisper_deps h args (start w)) = Return ()
         \<and> process_status (fst (script_whisper_deps h args (start w))) = 0"
proof -
  have "\<forall>n. fst (script_whisper_deps h args (start w)) \<noteq> SysExit n"
    using assms(1) by (simp add: script_whisper_deps_def main_no_exit)
  with assms(2) show ?thesis
    by (cases "fst (script_whisper_deps h args (start w))") simp_all
qed

theorem whisper_deps_exit_status_zero_witness:
  "\<not> version_less (version_info host_debian_ready) (3, 8)
   \<and> (\<forall>e. fst (script_whisper_deps host_debian_ready (flags False True) (start 0)) \<noteq> Raise e)
   \<and> process_status (fst (script_whisper_deps host_debian_ready (flags False True) (start 0))) = 0"
proof -
  have v: "\<not> version_less (version_info host_debian_ready) (3, 8)"
    by (simp add: host_debian_ready_def host_defs)
  have r: "\<forall>e. fst (script_whisper_deps host_debian_ready (flags False True) (start 0)) \<noteq> Raise e"
    by (simp add: eval_debian_ready)
  show ?thesis
    using v r whisper_deps_exit_status_zero [OF v r] by blast
qed

text \<open>
  Claim C10. \<open>run_command\<close> always returns a triple and never raises: a completed
  process gives its streams and the flag \<open>returncode = 0\<close>, an exception of the
  subprocess call gives \<open>(False, "", str(e))\<close>.
\<close>

theorem run_command_total:
  "(\<exists>succeeded out err s'. run_command h command s = (Return (succeeded, out, err), s'))
   \<and> fst (run_command h command s) =
       Return (case fst (shell h (world s) command) of
                 Inr cp \<Rightarrow> (returncode cp = 0, stdout cp, stderr cp)
               | Inl e \<Rightarrow> (False, [], str e))"
  by (cases "fst (shell h (world s) command)") (auto simp add: run_command_eq)

theorem run_command_total_witness:
  "fst (run_command host_fallback ''pip install faster-whisper'' (start 0))
     = Return (False, [], ''diagnostics'')
   \<and> fst (run_command host_fallback ''pip --version'' (start 0)) = Return (True, [], ''diagnostics'')"
  using run_command_total [of host_fallback "''pip install faster-whisper''" "start 0"]
    run_command_total [of host_fallback "''pip --version''" "start 0"]
  by (simp add: host_fallback_def host_defs start_def)

end
